theory Spec2Isabelle
  imports Complex_Main
begin

section \<open>The connection manager of \<^verbatim>\<open>ably/realtime/connection.py\<close>\<close>

text \<open>
  The module is asynchronous Python on one event loop. A coroutine runs without
  interruption from one \<^verbatim>\<open>await\<close> to the next, so every coroutine of the source is
  cut at its \<^verbatim>\<open>await\<close>s into segments, and each segment is a function from the
  manager to the manager and to what the coroutine did: returned, raised, or suspended
  on an awaitable together with the continuation that runs when it is woken.
  The \<^verbatim>\<open>asyncio.Future\<close> objects live in an explicit store, because a caller keeps
  awaiting a future after the manager's field that named it has been cleared.
\<close>

subsection \<open>Data\<close>

datatype ConnectionState =
  INITIALIZED | CONNECTING | CONNECTED | DISCONNECTED | CLOSING | CLOSED | FAILED

text \<open>
  The exceptions the module raises or meets. \<^verbatim>\<open>AblyException\<close> and
  \<^verbatim>\<open>AblyAuthException\<close> are imported classes; the source builds them from a
  message, a status code and a code, in this order. The others are Python's own:
  \<^verbatim>\<open>raise Exception()\<close>, and what asyncio, \<^verbatim>\<open>await\<close>, attribute access and
  dictionary access raise.
\<close>

datatype exn =
    AblyException string int int
  | AblyAuthException string int int
  | PlainException
  | TimeoutError
  | CancelledError
  | InvalidStateError
  | TypeError
  | AttributeError
  | KeyError

record ConnectionStateChange =
  previous :: ConnectionState
  current :: ConnectionState
  reason :: "exn option"

text \<open>An \<^verbatim>\<open>asyncio.Future\<close>. Every future of the module is resolved with \<^verbatim>\<open>None\<close>.\<close>

datatype future = Pending | Resolved | Failed exn | Cancelled

text \<open>
  Modelled from the spec: the actions of a protocol frame. The enumeration
  \<^verbatim>\<open>ProtocolMessageAction\<close> is imported from the transport module; the source names
  the seven members below, and \<open>OTHER_ACTION\<close> stands for any further member.
\<close>

datatype ProtocolMessageAction =
    Action_HEARTBEAT | Action_CONNECTED | Action_ERROR | Action_CLOSED
  | Action_ATTACHED | Action_DETACHED | Action_MESSAGE | OTHER_ACTION

record ErrorInfo =
  message :: string
  statusCode :: int
  code :: int
  nonfatal :: bool

text \<open>
  A frame is a dictionary: \<open>error = None\<close> is a frame without the key
  \<^verbatim>\<open>"error"\<close>, on which \<^verbatim>\<open>msg["error"]\<close> raises \<^verbatim>\<open>KeyError\<close>, and
  \<open>msg_id\<close> is \<^verbatim>\<open>msg.get("id")\<close>.
\<close>

record ProtocolMessage =
  action :: ProtocolMessageAction
  error :: "ErrorInfo option"
  msg_id :: "string option"

text \<open>
  Modelled from the spec: the transport handle. The class \<^verbatim>\<open>WebSocketTransport\<close>
  is imported; the manager reads and sets \<^verbatim>\<open>is_connected\<close>, reads
  \<^verbatim>\<open>ws_connect_task\<close> (here \<open>None\<close> or a task), and awaits \<^verbatim>\<open>connect\<close>,
  \<^verbatim>\<open>send\<close>, \<^verbatim>\<open>close\<close> and \<^verbatim>\<open>dispose\<close>. Each of these four is recorded as a
  call on the transport, in order.
\<close>

record WebSocketTransport =
  tid :: nat
  is_connected :: bool
  ws_connect_task :: "unit option"

datatype transport_call =
    T_connect nat
  | T_send nat ProtocolMessage
  | T_close nat
  | T_dispose nat

record Options =
  realtime_request_timeout :: int
  disconnected_retry_timeout :: int
  auto_connect :: bool

text \<open>
  The fields of \<^verbatim>\<open>ConnectionManager\<close>, then what the manager does to its
  surroundings: the store of futures, the events handed to \<^verbatim>\<open>_emit\<close>, the calls on
  transports, the frames forwarded to the channels, and how many tasks
  \<^verbatim>\<open>asyncio.create_task\<close> was asked to start for \<^verbatim>\<open>_connect\<close> and for
  \<^verbatim>\<open>retry_connection_attempt\<close>. \<open>ping_id = None\<close> is the attribute
  \<^verbatim>\<open>__ping_id\<close> before its first assignment (the constructor does not set it).
\<close>

record ConnectionManager =
  options :: Options
  state :: ConnectionState
  connected_future :: "nat option"
  closed_future :: "nat option"
  ping_future :: "nat option"
  ping_id :: "string option"
  timeout_in_secs :: rat
  transport :: "WebSocketTransport option"
  futures :: "future list"
  emitted :: "ConnectionStateChange list"
  calls :: "transport_call list"
  transports_created :: nat
  channel_messages :: "ProtocolMessage list"
  connect_tasks :: nat
  retry_tasks :: nat

text \<open>What a coroutine is suspended on.\<close>

datatype awaitable =
    Await_future nat
  | Wait_for nat rat
  | Wait_for_shield nat rat
  | Transport_call
  | Ws_connect_task
  | Sleep rat

text \<open>
  Where a suspended coroutine goes on. The arguments are the local variables the rest
  of the coroutine still uses: the future it waits for, the exception it will raise.
\<close>

datatype cont =
    K_connect nat
  | K_attempt_joined nat
  | K_connect_impl_connected
  | K_connect_impl_wait nat
  | K_connect_impl_disposed exn
  | K_retry_sleep
  | K_close_disposed
  | K_close_connected nat
  | K_close_sent
  | K_close_wait nat
  | K_close_ws_connect_task
  | K_ping_joined nat
  | K_ping_sent
  | K_ping_wait nat
  | K_error_disposed exn
  | K_closed_disposed

datatype result = Return | Raise exn | Suspend awaitable cont

datatype task_outcome = Task_returned | Task_raised exn | Task_cancelled

subsection \<open>Futures\<close>

definition fut :: "ConnectionManager \<Rightarrow> nat \<Rightarrow> future" where
  "fut s f = (if f < length (futures s) then futures s ! f else Pending)"

definition new_future :: "ConnectionManager \<Rightarrow> nat \<times> ConnectionManager" where
  "new_future s = (length (futures s), s\<lparr>futures := futures s @ [Pending]\<rparr>)"

text \<open>
  \<^verbatim>\<open>set_result\<close> and \<^verbatim>\<open>set_exception\<close> raise \<^verbatim>\<open>InvalidStateError\<close> on a
  future that is done; \<^verbatim>\<open>cancel\<close> leaves a done future as it is.
\<close>

definition set_result :: "nat \<Rightarrow> ConnectionManager \<Rightarrow> exn + ConnectionManager" where
  "set_result f s =
     (if fut s f = Pending then Inr (s\<lparr>futures := (futures s)[f := Resolved]\<rparr>)
      else Inl InvalidStateError)"

definition set_exception :: "nat \<Rightarrow> exn \<Rightarrow> ConnectionManager \<Rightarrow> exn + ConnectionManager" where
  "set_exception f e s =
     (if fut s f = Pending then Inr (s\<lparr>futures := (futures s)[f := Failed e]\<rparr>)
      else Inl InvalidStateError)"

definition cancel :: "nat \<Rightarrow> ConnectionManager \<Rightarrow> ConnectionManager" where
  "cancel f s =
     (if fut s f = Pending then s\<lparr>futures := (futures s)[f := Cancelled]\<rparr> else s)"

subsection \<open>The constructor and the single mutation point\<close>

definition ConnectionManager_init :: "Options \<Rightarrow> ConnectionState \<Rightarrow> ConnectionManager" where
  "ConnectionManager_init opts initial_state =
     \<lparr> options = opts,
       state = initial_state,
       connected_future = (if initial_state = CONNECTING then Some 0 else None),
       closed_future = None,
       ping_future = None,
       ping_id = None,
       timeout_in_secs = of_int (realtime_request_timeout opts) / 1000,
       transport = None,
       futures = (if initial_state = CONNECTING then [Pending] else []),
       emitted = [],
       calls = [],
       transports_created = 0,
       channel_messages = [],
       connect_tasks = 0,
       retry_tasks = 0 \<rparr>"

text \<open>
  \<^verbatim>\<open>Connection.__init__\<close> chooses the state the manager starts in from
  \<^verbatim>\<open>auto_connect\<close>.
\<close>

definition Connection_init :: "Options \<Rightarrow> ConnectionManager" where
  "Connection_init opts =
     ConnectionManager_init opts (if auto_connect opts then CONNECTING else INITIALIZED)"

text \<open>
  Modelled from the spec: \<^verbatim>\<open>_emit\<close> comes from the imported event emitter and
  publishes the event to the listeners. Here the events published are collected, in
  the order in which they were published.
\<close>

definition enact_state_change ::
  "ConnectionState \<Rightarrow> exn option \<Rightarrow> ConnectionManager \<Rightarrow> ConnectionManager" where
  "enact_state_change st rsn s =
     (let current_state = state s
      in s\<lparr>state := st,
           emitted := emitted s @ [\<lparr>previous = current_state, current = st, reason = rsn\<rparr>]\<rparr>)"

subsection \<open>Awaiting\<close>

text \<open>
  What \<^verbatim>\<open>await fut\<close> finds when the coroutine runs: the future is not done and the
  coroutine stays suspended, or the future has its value, or awaiting it raises (a
  cancelled future raises \<^verbatim>\<open>CancelledError\<close>).
  A coroutine suspended in \<^verbatim>\<open>asyncio.wait_for\<close> is woken by the future or by the
  timer and then looks at the future: when it is still not done the wait has timed out.
  \<^verbatim>\<open>wait_for\<close> then cancels the future it was given (under \<^verbatim>\<open>asyncio.shield\<close>
  only the shield) and raises \<^verbatim>\<open>TimeoutError\<close>.
\<close>

datatype wake = Not_done | Has_value | Raises exn

fun outcome :: "future \<Rightarrow> wake" where
  "outcome Pending = Not_done"
| "outcome Resolved = Has_value"
| "outcome (Failed e) = Raises e"
| "outcome Cancelled = Raises CancelledError"

definition call_transport :: "transport_call \<Rightarrow> ConnectionManager \<Rightarrow> ConnectionManager" where
  "call_transport c s = s\<lparr>calls := calls s @ [c]\<rparr>"

subsection \<open>Connection attempts\<close>

text \<open>\<^verbatim>\<open>try_connect\<close>: one more task running \<^verbatim>\<open>_connect\<close>, with the completion handler.\<close>

definition try_connect :: "ConnectionManager \<Rightarrow> ConnectionManager" where
  "try_connect s = s\<lparr>connect_tasks := connect_tasks s + 1\<rparr>"

definition connect_joined :: "nat \<Rightarrow> ConnectionManager \<Rightarrow> ConnectionManager \<times> result" where
  "connect_joined f s =
     (case outcome (fut s f) of
        Not_done \<Rightarrow> (s, Suspend (Await_future f) (K_connect f))
      | Has_value \<Rightarrow> (s, Return)
      | Raises e \<Rightarrow> (s, Raise e))"

definition connect :: "ConnectionManager \<Rightarrow> ConnectionManager \<times> result" where
  "connect s =
     (case connected_future s of
        None \<Rightarrow>
          (let (f, s1) = new_future s;
               s2 = try_connect (s1\<lparr>connected_future := Some f\<rparr>)
           in connect_joined f s2)
      | Some f \<Rightarrow> connect_joined f s)"

definition connection_cancelled :: exn where
  "connection_cancelled =
     AblyException ''Connection cancelled due to request timeout. Attempting reconnection...''
       504 50003"

definition connection_timeout :: exn where
  "connection_timeout = AblyException ''Timeout waiting for realtime connection'' 504 50003"

definition attempt_joined :: "nat \<Rightarrow> ConnectionManager \<Rightarrow> ConnectionManager \<times> result" where
  "attempt_joined f s =
     (case outcome (fut s f) of
        Not_done \<Rightarrow> (s, Suspend (Await_future f) (K_attempt_joined f))
      | Has_value \<Rightarrow> (s, Return)
      | Raises e \<Rightarrow>
          (if e = CancelledError then (s, Raise connection_cancelled) else (s, Raise e)))"

text \<open>
  \<^verbatim>\<open>connect_impl\<close>. The handler of the timeout assigns \<^verbatim>\<open>None\<close> to
  \<^verbatim>\<open>self.tranpsort\<close>, an attribute nothing reads: the field \<open>transport\<close> keeps the
  disposed handle. \<^verbatim>\<open>asyncio.shield(None)\<close> raises \<^verbatim>\<open>TypeError\<close>, and
  \<^verbatim>\<open>None.set_exception\<close> raises \<^verbatim>\<open>AttributeError\<close>.
\<close>

definition connect_impl_fail :: "exn \<Rightarrow> ConnectionManager \<Rightarrow> ConnectionManager \<times> result" where
  "connect_impl_fail exception s =
     (case connected_future s of
        None \<Rightarrow> (s, Raise AttributeError)
      | Some f \<Rightarrow>
          (case set_exception f exception s of
             Inl err \<Rightarrow> (s, Raise err)
           | Inr s1 \<Rightarrow> (s1, Raise exception)))"

definition connect_impl_disposed ::
  "exn \<Rightarrow> exn option \<Rightarrow> ConnectionManager \<Rightarrow> ConnectionManager \<times> result" where
  "connect_impl_disposed exception ext s =
     (case ext of Some e \<Rightarrow> (s, Raise e) | None \<Rightarrow> connect_impl_fail exception s)"

definition connect_impl_timeout :: "ConnectionManager \<Rightarrow> ConnectionManager \<times> result" where
  "connect_impl_timeout s =
     (let exception = connection_timeout;
          s1 = enact_state_change DISCONNECTED (Some exception) s
      in case transport s1 of
           Some t \<Rightarrow>
             (call_transport (T_dispose (tid t)) s1,
              Suspend Transport_call (K_connect_impl_disposed exception))
         | None \<Rightarrow> connect_impl_fail exception s1)"

definition connect_impl_wait :: "nat \<Rightarrow> ConnectionManager \<Rightarrow> ConnectionManager \<times> result" where
  "connect_impl_wait f s =
     (case outcome (fut s f) of
        Not_done \<Rightarrow> (s, Suspend (Wait_for_shield f (timeout_in_secs s)) (K_connect_impl_wait f))
      | Has_value \<Rightarrow> (s, Return)
      | Raises e \<Rightarrow> (if e = TimeoutError then connect_impl_timeout s else (s, Raise e)))"

definition connect_impl_woken :: "nat \<Rightarrow> ConnectionManager \<Rightarrow> ConnectionManager \<times> result" where
  "connect_impl_woken f s =
     (case outcome (fut s f) of
        Not_done \<Rightarrow> connect_impl_timeout s
      | Has_value \<Rightarrow> (s, Return)
      | Raises e \<Rightarrow> (if e = TimeoutError then connect_impl_timeout s else (s, Raise e)))"

definition connect_impl_connected ::
  "exn option \<Rightarrow> ConnectionManager \<Rightarrow> ConnectionManager \<times> result" where
  "connect_impl_connected ext s =
     (case ext of
        Some e \<Rightarrow> (s, Raise e)
      | None \<Rightarrow>
          (case connected_future s of
             None \<Rightarrow> (s, Raise TypeError)
           | Some f \<Rightarrow> connect_impl_wait f s))"

text \<open>
  Modelled from the spec: the constructor and \<^verbatim>\<open>connect()\<close> of the transport
  class, which is imported. A new handle is not connected and has no connect task;
  \<^verbatim>\<open>connect()\<close> starts the handle's own background connect task.
\<close>

definition new_transport :: "nat \<Rightarrow> WebSocketTransport" where
  "new_transport n = \<lparr>tid = n, is_connected = False, ws_connect_task = None\<rparr>"

definition transport_connect :: "WebSocketTransport \<Rightarrow> WebSocketTransport" where
  "transport_connect t = t\<lparr>ws_connect_task := Some ()\<rparr>"

definition connect_impl :: "ConnectionManager \<Rightarrow> ConnectionManager \<times> result" where
  "connect_impl s =
     (let n = transports_created s;
          t = new_transport n;
          s1 = s\<lparr>transport := Some (transport_connect t), transports_created := n + 1\<rparr>
      in (call_transport (T_connect n) s1, Suspend Transport_call K_connect_impl_connected))"

text \<open>\<^verbatim>\<open>_connect\<close>, the body of an attempt task.\<close>

definition connect_attempt :: "ConnectionManager \<Rightarrow> ConnectionManager \<times> result" where
  "connect_attempt s =
     (if state s = CONNECTED then (s, Return)
      else if state s = CONNECTING then
        (case connected_future s of
           None \<Rightarrow>
             (let (f, s1) = new_future s
              in attempt_joined f (s1\<lparr>connected_future := Some f\<rparr>))
         | Some f \<Rightarrow> attempt_joined f s)
      else connect_impl (enact_state_change CONNECTING None s))"

text \<open>
  \<^verbatim>\<open>on_connection_attempt_done\<close>, the done callback of an attempt task. It is not a
  coroutine. An exception it raises goes to the event loop.
\<close>

definition fail_connected_future :: "exn \<Rightarrow> ConnectionManager \<Rightarrow> exn + ConnectionManager" where
  "fail_connected_future exception s =
     (case connected_future s of
        None \<Rightarrow> Inr s
      | Some f \<Rightarrow>
          (case set_exception f exception s of
             Inl err \<Rightarrow> Inl err
           | Inr s1 \<Rightarrow> Inr (s1\<lparr>connected_future := None\<rparr>)))"

definition create_retry_task :: "ConnectionManager \<Rightarrow> ConnectionManager" where
  "create_retry_task s = s\<lparr>retry_tasks := retry_tasks s + 1\<rparr>"

definition on_connection_attempt_done ::
  "task_outcome \<Rightarrow> ConnectionManager \<Rightarrow> ConnectionManager \<times> result" where
  "on_connection_attempt_done task s =
     (let exception =
            (case task of
               Task_returned \<Rightarrow> None
             | Task_raised e \<Rightarrow> Some e
             | Task_cancelled \<Rightarrow> Some connection_cancelled)
      in case exception of
           None \<Rightarrow> (s, Return)
         | Some e \<Rightarrow>
             if state s \<in> {CLOSED, FAILED} then (s, Return)
             else if state s \<noteq> DISCONNECTED then
               (case fail_connected_future e s of
                  Inl err \<Rightarrow> (s, Raise err)
                | Inr s1 \<Rightarrow>
                    (create_retry_task (enact_state_change DISCONNECTED (Some e) s1), Return))
             else (create_retry_task s, Return))"

definition retry_connection_attempt :: "ConnectionManager \<Rightarrow> ConnectionManager \<times> result" where
  "retry_connection_attempt s =
     (s, Suspend (Sleep (of_int (disconnected_retry_timeout (options s)) / 1000)) K_retry_sleep)"

definition retry_slept :: "ConnectionManager \<Rightarrow> ConnectionManager \<times> result" where
  "retry_slept s = (try_connect s, Return)"

subsection \<open>Closing\<close>

definition close_timeout :: exn where
  "close_timeout = AblyException ''Timeout waiting for connection close response'' 504 50003"

definition close_ws_connect_task ::
  "exn option \<Rightarrow> ConnectionManager \<Rightarrow> ConnectionManager \<times> result" where
  "close_ws_connect_task ext s = (case ext of Some e \<Rightarrow> (s, Raise e) | None \<Rightarrow> (s, Return))"

definition close_closed :: "ConnectionManager \<Rightarrow> ConnectionManager \<times> result" where
  "close_closed s =
     (let s1 = enact_state_change CLOSED None s
      in case transport s1 of
           None \<Rightarrow> (s1, Return)
         | Some t \<Rightarrow>
             (case ws_connect_task t of
                None \<Rightarrow> (s1, Return)
              | Some u \<Rightarrow> (s1, Suspend Ws_connect_task K_close_ws_connect_task)))"

definition close_wait :: "nat \<Rightarrow> ConnectionManager \<Rightarrow> ConnectionManager \<times> result" where
  "close_wait f s =
     (case outcome (fut s f) of
        Not_done \<Rightarrow> (s, Suspend (Wait_for f (timeout_in_secs s)) (K_close_wait f))
      | Has_value \<Rightarrow> close_closed s
      | Raises e \<Rightarrow> (if e = TimeoutError then (s, Raise close_timeout) else (s, Raise e)))"

definition close_woken :: "nat \<Rightarrow> ConnectionManager \<Rightarrow> ConnectionManager \<times> result" where
  "close_woken f s =
     (case outcome (fut s f) of
        Not_done \<Rightarrow> (cancel f s, Raise close_timeout)
      | Has_value \<Rightarrow> close_closed s
      | Raises e \<Rightarrow> (if e = TimeoutError then (s, Raise close_timeout) else (s, Raise e)))"

definition close_sent :: "exn option \<Rightarrow> ConnectionManager \<Rightarrow> ConnectionManager \<times> result" where
  "close_sent ext s =
     (case ext of
        Some e \<Rightarrow> (s, Raise e)
      | None \<Rightarrow>
          (case closed_future s of
             None \<Rightarrow> (s, Raise TypeError)
           | Some f \<Rightarrow> close_wait f s))"

definition close_closing :: "ConnectionManager \<Rightarrow> ConnectionManager \<times> result" where
  "close_closing s =
     (let s1 = enact_state_change CLOSING None s;
          (f, s2) = new_future s1;
          s3 = s2\<lparr>closed_future := Some f\<rparr>
      in case transport s3 of
           None \<Rightarrow> close_closed s3
         | Some t \<Rightarrow>
             if is_connected t
             then (call_transport (T_close (tid t)) s3, Suspend Transport_call K_close_sent)
             else close_closed s3)"

definition close_connected :: "nat \<Rightarrow> ConnectionManager \<Rightarrow> ConnectionManager \<times> result" where
  "close_connected f s =
     (case outcome (fut s f) of
        Not_done \<Rightarrow> (s, Suspend (Await_future f) (K_close_connected f))
      | Has_value \<Rightarrow> close_closing s
      | Raises e \<Rightarrow> (s, Raise e))"

definition close_disposed :: "exn option \<Rightarrow> ConnectionManager \<Rightarrow> ConnectionManager \<times> result" where
  "close_disposed ext s =
     (case ext of
        Some e \<Rightarrow> (s, Raise e)
      | None \<Rightarrow> (enact_state_change CLOSED None (s\<lparr>transport := None\<rparr>), Return))"

text \<open>\<^verbatim>\<open>await None\<close> raises \<^verbatim>\<open>TypeError\<close>.\<close>

definition close :: "ConnectionManager \<Rightarrow> ConnectionManager \<times> result" where
  "close s =
     (if state s \<in> {CLOSED, INITIALIZED, FAILED}
      then (enact_state_change CLOSED None s, Return)
      else case (if state s = DISCONNECTED then transport s else None) of
             Some t \<Rightarrow> (call_transport (T_dispose (tid t)) s, Suspend Transport_call K_close_disposed)
           | None \<Rightarrow>
               if state s = CONNECTING then
                 (case connected_future s of
                    None \<Rightarrow> (s, Raise TypeError)
                  | Some f \<Rightarrow> close_connected f s)
               else close_closing s)"

subsection \<open>Ping\<close>

text \<open>
  The identifier of a ping comes from \<^verbatim>\<open>helper.get_random_id()\<close> and is an
  argument here. The elapsed time a successful ping returns is read from the clock and
  is not part of the model.
\<close>

definition ping_invalid_state :: exn where
  "ping_invalid_state =
     AblyException ''Cannot send ping request. Calling ping in invalid state'' 40000 400"

definition ping_cancelled :: exn where
  "ping_cancelled = AblyException ''Ping request cancelled due to request timeout'' 504 50003"

definition ping_timeout :: exn where
  "ping_timeout = AblyException ''Timeout waiting for ping response'' 504 50003"

definition ping_joined :: "nat \<Rightarrow> ConnectionManager \<Rightarrow> ConnectionManager \<times> result" where
  "ping_joined f s =
     (case outcome (fut s f) of
        Not_done \<Rightarrow> (s, Suspend (Await_future f) (K_ping_joined f))
      | Has_value \<Rightarrow> (s, Return)
      | Raises e \<Rightarrow> (if e = CancelledError then (s, Raise ping_cancelled) else (s, Raise e)))"

definition ping_wait :: "nat \<Rightarrow> ConnectionManager \<Rightarrow> ConnectionManager \<times> result" where
  "ping_wait f s =
     (case outcome (fut s f) of
        Not_done \<Rightarrow> (s, Suspend (Wait_for f (timeout_in_secs s)) (K_ping_wait f))
      | Has_value \<Rightarrow> (s, Return)
      | Raises e \<Rightarrow> (if e = TimeoutError then (s, Raise ping_timeout) else (s, Raise e)))"

definition ping_woken :: "nat \<Rightarrow> ConnectionManager \<Rightarrow> ConnectionManager \<times> result" where
  "ping_woken f s =
     (case outcome (fut s f) of
        Not_done \<Rightarrow> (cancel f s, Raise ping_timeout)
      | Has_value \<Rightarrow> (s, Return)
      | Raises e \<Rightarrow> (if e = TimeoutError then (s, Raise ping_timeout) else (s, Raise e)))"

definition ping_sent :: "exn option \<Rightarrow> ConnectionManager \<Rightarrow> ConnectionManager \<times> result" where
  "ping_sent ext s =
     (case ext of
        Some e \<Rightarrow> (s, Raise e)
      | None \<Rightarrow>
          (case ping_future s of
             None \<Rightarrow> (s, Raise TypeError)
           | Some f \<Rightarrow> ping_wait f s))"

definition send_protocol_message ::
  "ProtocolMessage \<Rightarrow> cont \<Rightarrow> ConnectionManager \<Rightarrow> ConnectionManager \<times> result" where
  "send_protocol_message protocol_message k s =
     (case transport s of
        Some t \<Rightarrow> (call_transport (T_send (tid t) protocol_message) s, Suspend Transport_call k)
      | None \<Rightarrow> (s, Raise PlainException))"

definition ping :: "string \<Rightarrow> ConnectionManager \<Rightarrow> ConnectionManager \<times> result" where
  "ping random_id s =
     (case ping_future s of
        Some f \<Rightarrow> ping_joined f s
      | None \<Rightarrow>
          (let (f, s1) = new_future s;
               s2 = s1\<lparr>ping_future := Some f\<rparr>
           in if state s2 \<in> {CONNECTED, CONNECTING} then
                send_protocol_message
                  \<lparr>action = Action_HEARTBEAT, error = None, msg_id = Some random_id\<rparr>
                  K_ping_sent (s2\<lparr>ping_id := Some random_id\<rparr>)
              else (s2, Raise ping_invalid_state)))"

subsection \<open>Inbound frames\<close>

definition closed_resolve :: "ConnectionManager \<Rightarrow> ConnectionManager \<times> result" where
  "closed_resolve s =
     (case closed_future s of
        None \<Rightarrow> (s, Raise AttributeError)
      | Some f \<Rightarrow>
          (case set_result f s of
             Inl err \<Rightarrow> (s, Raise err)
           | Inr s1 \<Rightarrow> (s1, Return)))"

definition closed_disposed :: "exn option \<Rightarrow> ConnectionManager \<Rightarrow> ConnectionManager \<times> result" where
  "closed_disposed ext s = (case ext of Some e \<Rightarrow> (s, Raise e) | None \<Rightarrow> closed_resolve s)"

definition error_disposed ::
  "exn \<Rightarrow> exn option \<Rightarrow> ConnectionManager \<Rightarrow> ConnectionManager \<times> result" where
  "error_disposed exception ext s =
     (case ext of Some e \<Rightarrow> (s, Raise e) | None \<Rightarrow> (s, Raise exception))"

definition on_connected :: "ConnectionManager \<Rightarrow> ConnectionManager \<times> result" where
  "on_connected s =
     (let s1 = (case transport s of
                  Some t \<Rightarrow> s\<lparr>transport := Some (t\<lparr>is_connected := True\<rparr>)\<rparr>
                | None \<Rightarrow> s)
      in case connected_future s1 of
           Some f \<Rightarrow>
             if fut s1 f \<noteq> Cancelled then
               (case set_result f s1 of
                  Inl err \<Rightarrow> (s1, Raise err)
                | Inr s2 \<Rightarrow>
                    (enact_state_change CONNECTED None (s2\<lparr>connected_future := None\<rparr>), Return))
             else (enact_state_change CONNECTED None (s1\<lparr>connected_future := None\<rparr>), Return)
         | None \<Rightarrow> (enact_state_change CONNECTED None s1, Return))"

definition on_error :: "ProtocolMessage \<Rightarrow> ConnectionManager \<Rightarrow> ConnectionManager \<times> result" where
  "on_error msg s =
     (case error msg of
        None \<Rightarrow> (s, Raise KeyError)
      | Some err \<Rightarrow>
          if \<not> nonfatal err then
            (let exception = AblyAuthException (message err) (statusCode err) (code err);
                 s1 = enact_state_change FAILED (Some exception) s
             in case fail_connected_future exception s1 of
                  Inl e \<Rightarrow> (s1, Raise e)
                | Inr s2 \<Rightarrow>
                    (case transport s2 of
                       Some t \<Rightarrow>
                         (call_transport (T_dispose (tid t)) s2,
                          Suspend Transport_call (K_error_disposed exception))
                     | None \<Rightarrow> (s2, Raise exception)))
          else (s, Return))"

definition on_closed :: "ConnectionManager \<Rightarrow> ConnectionManager \<times> result" where
  "on_closed s =
     (case transport s of
        Some t \<Rightarrow> (call_transport (T_dispose (tid t)) s, Suspend Transport_call K_closed_disposed)
      | None \<Rightarrow> closed_resolve s)"

definition on_heartbeat :: "ProtocolMessage \<Rightarrow> ConnectionManager \<Rightarrow> ConnectionManager \<times> result" where
  "on_heartbeat msg s =
     (case ping_future s of
        None \<Rightarrow> (s, Return)
      | Some f \<Rightarrow>
          (case ping_id s of
             None \<Rightarrow> (s, Raise AttributeError)
           | Some i \<Rightarrow>
               if Some i = msg_id msg then
                 (if fut s f \<noteq> Cancelled then
                    (case set_result f s of
                       Inl err \<Rightarrow> (s, Raise err)
                     | Inr s1 \<Rightarrow> (s1\<lparr>ping_future := None\<rparr>, Return))
                  else (s\<lparr>ping_future := None\<rparr>, Return))
               else (s, Return)))"

text \<open>
  \<^verbatim>\<open>on_protocol_message\<close>: the source tests the action in a row of \<^verbatim>\<open>if\<close>s; a
  frame has one action, so at most one of them runs. Modelled from the spec: the
  channel dispatch that \<open>attached\<close>, \<open>detached\<close> and \<open>message\<close> frames are
  forwarded to is imported; the frames forwarded are collected.
\<close>

definition on_protocol_message ::
  "ProtocolMessage \<Rightarrow> ConnectionManager \<Rightarrow> ConnectionManager \<times> result" where
  "on_protocol_message msg s =
     (case action msg of
        Action_CONNECTED \<Rightarrow> on_connected s
      | Action_ERROR \<Rightarrow> on_error msg s
      | Action_CLOSED \<Rightarrow> on_closed s
      | Action_HEARTBEAT \<Rightarrow> on_heartbeat msg s
      | Action_ATTACHED \<Rightarrow> (s\<lparr>channel_messages := channel_messages s @ [msg]\<rparr>, Return)
      | Action_DETACHED \<Rightarrow> (s\<lparr>channel_messages := channel_messages s @ [msg]\<rparr>, Return)
      | Action_MESSAGE \<Rightarrow> (s\<lparr>channel_messages := channel_messages s @ [msg]\<rparr>, Return)
      | OTHER_ACTION \<Rightarrow> (s, Return))"

subsection \<open>Waking a suspended coroutine\<close>

text \<open>
  \<open>resume k ext s\<close> runs the coroutine suspended at \<open>k\<close> up to its next
  \<^verbatim>\<open>await\<close>. \<open>ext\<close> is what the awaited transport call or transport task did when
  that is what the coroutine waited for: \<open>None\<close> when it returned, \<open>Some e\<close> when it
  raised \<open>e\<close>. A coroutine that waited for a future looks at the future instead. Time
  is not measured: a wait with a timeout may be woken at any moment, and finding the
  future still pending is what the elapsed timer means.
\<close>

fun resume :: "cont \<Rightarrow> exn option \<Rightarrow> ConnectionManager \<Rightarrow> ConnectionManager \<times> result" where
  "resume (K_connect f) ext s = connect_joined f s"
| "resume (K_attempt_joined f) ext s = attempt_joined f s"
| "resume K_connect_impl_connected ext s = connect_impl_connected ext s"
| "resume (K_connect_impl_wait f) ext s = connect_impl_woken f s"
| "resume (K_connect_impl_disposed exception) ext s = connect_impl_disposed exception ext s"
| "resume K_retry_sleep ext s = retry_slept s"
| "resume K_close_disposed ext s = close_disposed ext s"
| "resume (K_close_connected f) ext s = close_connected f s"
| "resume K_close_sent ext s = close_sent ext s"
| "resume (K_close_wait f) ext s = close_woken f s"
| "resume K_close_ws_connect_task ext s = close_ws_connect_task ext s"
| "resume (K_ping_joined f) ext s = ping_joined f s"
| "resume K_ping_sent ext s = ping_sent ext s"
| "resume (K_ping_wait f) ext s = ping_woken f s"
| "resume (K_error_disposed exception) ext s = error_disposed exception ext s"
| "resume K_closed_disposed ext s = closed_disposed ext s"

text \<open>
  A transport call, or the transport's connect task, that completes before anything
  else runs: the coroutine goes on at once.
\<close>

definition through ::
  "exn option \<Rightarrow> ConnectionManager \<times> result \<Rightarrow> ConnectionManager \<times> result" where
  "through ext sr =
     (case snd sr of
        Suspend Transport_call k \<Rightarrow> resume k ext (fst sr)
      | Suspend Ws_connect_task k \<Rightarrow> resume k ext (fst sr)
      | _ \<Rightarrow> sr)"

subsection \<open>Runs\<close>

text \<open>
  Everything that can happen to a manager: the application calls \<^verbatim>\<open>connect\<close>,
  \<^verbatim>\<open>close\<close> or \<^verbatim>\<open>ping\<close>, the transport delivers a frame, an attempt task or a
  retry task starts, an attempt task is done, a suspended coroutine is woken.
\<close>

datatype event =
    Call_connect
  | Call_close
  | Call_ping string
  | Receive ProtocolMessage
  | Start_attempt
  | Attempt_done task_outcome
  | Start_retry
  | Wake cont "exn option"

fun exec :: "event \<Rightarrow> ConnectionManager \<Rightarrow> ConnectionManager \<times> result" where
  "exec Call_connect s = connect s"
| "exec Call_close s = close s"
| "exec (Call_ping random_id) s = ping random_id s"
| "exec (Receive msg) s = on_protocol_message msg s"
| "exec Start_attempt s = connect_attempt s"
| "exec (Attempt_done task) s = on_connection_attempt_done task s"
| "exec Start_retry s = retry_connection_attempt s"
| "exec (Wake k ext) s = resume k ext s"

fun run :: "event list \<Rightarrow> ConnectionManager \<Rightarrow> ConnectionManager" where
  "run [] s = s"
| "run (ev # evs) s = run evs (fst (exec ev s))"

text \<open>The events form a chain when each starts where the one before ended.\<close>

fun chained :: "ConnectionStateChange list \<Rightarrow> bool" where
  "chained (a # b # es) = (previous b = current a \<and> chained (b # es))"
| "chained es = True"

text \<open>
  The events form a chain from \<open>a\<close> to \<open>b\<close> when the first starts at \<open>a\<close>, each
  starts where the one before ended, and the last ends at \<open>b\<close>.
\<close>

fun follows :: "ConnectionState \<Rightarrow> ConnectionStateChange list \<Rightarrow> ConnectionState \<Rightarrow> bool" where
  "follows a [] b = (a = b)"
| "follows a (e # es) b = (previous e = a \<and> follows (current e) es b)"

definition follows_inv :: "ConnectionState \<Rightarrow> ConnectionManager \<Rightarrow> bool" where
  "follows_inv st0 s = follows st0 (emitted s) (state s)"

text \<open>What the coroutines answered, event by event.\<close>

fun results :: "event list \<Rightarrow> ConnectionManager \<Rightarrow> result list" where
  "results [] s = []"
| "results (ev # evs) s = snd (exec ev s) # results evs (fst (exec ev s))"

text \<open>
  A suspended coroutine is woken: by its future when that is done, by the timer of
  its \<^verbatim>\<open>wait_for\<close> when the future is still pending. \<open>meanwhile\<close> lets other
  events happen while the coroutine stays suspended.
\<close>

definition woken :: "ConnectionManager \<times> result \<Rightarrow> ConnectionManager \<times> result" where
  "woken sr = (case snd sr of Suspend a k \<Rightarrow> resume k None (fst sr) | _ \<Rightarrow> sr)"


text \<open>A future that is done stays as it is from \<open>s\<close> to \<open>s'\<close>.\<close>

definition settled :: "ConnectionManager \<Rightarrow> ConnectionManager \<Rightarrow> bool" where
  "settled s s' = (\<forall>f. fut s f \<noteq> Pending \<longrightarrow> fut s' f = fut s f)"

subsection \<open>Concrete managers\<close>

definition example_options :: Options where
  "example_options =
     \<lparr>realtime_request_timeout = 10000, disconnected_retry_timeout = 15000,
      auto_connect = False\<rparr>"

definition connected_frame :: ProtocolMessage where
  "connected_frame = \<lparr>action = Action_CONNECTED, error = None, msg_id = None\<rparr>"

definition closed_frame :: ProtocolMessage where
  "closed_frame = \<lparr>action = Action_CLOSED, error = None, msg_id = None\<rparr>"

definition fatal_error_frame :: ProtocolMessage where
  "fatal_error_frame =
     \<lparr>action = Action_ERROR,
      error = Some \<lparr>message = ''Invalid key'', statusCode = 401, code = 40101,
                    nonfatal = False\<rparr>,
      msg_id = None\<rparr>"

definition fresh_manager :: ConnectionManager where
  "fresh_manager = Connection_init example_options"

text \<open>
  \<^verbatim>\<open>connect()\<close> is called, the attempt task starts, the transport's
  \<^verbatim>\<open>connect()\<close> returns: the attempt waits for the \<open>connected\<close> frame.
\<close>

definition connecting_events :: "event list" where
  "connecting_events = [Call_connect, Start_attempt, Wake K_connect_impl_connected None]"

definition connecting_manager :: ConnectionManager where
  "connecting_manager = run connecting_events fresh_manager"

definition connected_manager :: ConnectionManager where
  "connected_manager = run (connecting_events @ [Receive connected_frame]) fresh_manager"

text \<open>
  The attempt times out instead, its completion handler schedules the retry, and the
  retry task goes to sleep.
\<close>

definition timed_out_events :: "event list" where
  "timed_out_events =
     connecting_events @
     [Wake (K_connect_impl_wait 0) None,
      Wake (K_connect_impl_disposed connection_timeout) None,
      Attempt_done (Task_raised connection_timeout),
      Start_retry]"

text \<open>
  While the retry sleeps the application calls \<^verbatim>\<open>close()\<close>, which completes. Then
  the sleep ends and the attempt task that the retry creates starts.
\<close>

definition closed_while_retry_sleeps :: "event list" where
  "closed_while_retry_sleeps = timed_out_events @ [Call_close, Wake K_close_disposed None]"

definition retry_fires :: "event list" where
  "retry_fires = [Wake K_retry_sleep None, Start_attempt]"

text \<open>
  The retried attempt finds the connect future that the timeout left failed in the
  field: after the transport's \<^verbatim>\<open>connect()\<close> has returned the attempt is done at
  once, and its completion handler runs.
\<close>

definition stale_attempt_fails :: "event list" where
  "stale_attempt_fails =
     [Wake K_connect_impl_connected None, Attempt_done (Task_raised connection_timeout)]"

text \<open>
  Another way into \<open>connecting\<close>, with a retry asleep. The transport's
  \<^verbatim>\<open>connect()\<close> raises (here a bare \<^verbatim>\<open>Exception\<close>), the completion handler fails and clears the connect future,
  moves to \<open>disconnected\<close> and creates the retry task, which goes to sleep. The
  application calls \<^verbatim>\<open>connect()\<close> again: a new future, a new attempt, which waits
  for the \<open>connected\<close> frame.
\<close>

definition retry_sleeps_while_connecting :: "event list" where
  "retry_sleeps_while_connecting =
     [Call_connect, Start_attempt, Wake K_connect_impl_connected (Some PlainException),
      Attempt_done (Task_raised PlainException), Start_retry,
      Call_connect, Start_attempt, Wake K_connect_impl_connected None]"

text \<open>
  Then the fatal error frame is handled, the caller of \<^verbatim>\<open>connect()\<close> and the
  attempt are woken, the attempt task is done. After that the sleep of the retry ends,
  and the attempt it creates runs to its end.
\<close>

definition invalid_key :: exn where
  "invalid_key = AblyAuthException ''Invalid key'' 401 40101"

definition fatal_error_handled :: "event list" where
  "fatal_error_handled =
     [Receive fatal_error_frame, Wake (K_error_disposed invalid_key) None,
      Wake (K_connect 1) None, Wake (K_connect_impl_wait 1) None,
      Attempt_done (Task_raised invalid_key)]"

definition retry_attempt_fails :: "event list" where
  "retry_attempt_fails =
     [Wake K_connect_impl_connected None, Attempt_done (Task_raised TypeError)]"

section \<open>Properties\<close>

subsection \<open>Unfolding the model\<close>


subsection \<open>State changes form a chain\<close>

text \<open>
  Every segment of every coroutine leaves the state and the emitted events alone or
  goes through \<open>enact_state_change\<close>, which appends an event that starts at the
  state it replaces.
\<close>

lemma follows_snoc: "follows a (es @ [e]) b = (follows a es (previous e) \<and> current e = b)"
  by (induction es arbitrary: a) auto

lemma follows_chained: "follows a es b \<Longrightarrow> chained es"
  by (induction es arbitrary: a rule: chained.induct) auto

lemma inv_enact: "follows_inv st0 s \<Longrightarrow> follows_inv st0 (enact_state_change st r s)"
  by (simp add: follows_inv_def enact_state_change_def follows_snoc Let_def)

lemma inv_upd [simp]:
  "follows_inv st0 (s\<lparr>options := a1\<rparr>) = follows_inv st0 s"
  "follows_inv st0 (s\<lparr>connected_future := a2\<rparr>) = follows_inv st0 s"
  "follows_inv st0 (s\<lparr>closed_future := a3\<rparr>) = follows_inv st0 s"
  "follows_inv st0 (s\<lparr>ping_future := a4\<rparr>) = follows_inv st0 s"
  "follows_inv st0 (s\<lparr>ping_id := a5\<rparr>) = follows_inv st0 s"
  "follows_inv st0 (s\<lparr>timeout_in_secs := a6\<rparr>) = follows_inv st0 s"
  "follows_inv st0 (s\<lparr>transport := a7\<rparr>) = follows_inv st0 s"
  "follows_inv st0 (s\<lparr>futures := a8\<rparr>) = follows_inv st0 s"
  "follows_inv st0 (s\<lparr>calls := a9\<rparr>) = follows_inv st0 s"
  "follows_inv st0 (s\<lparr>transports_created := a10\<rparr>) = follows_inv st0 s"
  "follows_inv st0 (s\<lparr>channel_messages := a11\<rparr>) = follows_inv st0 s"
  "follows_inv st0 (s\<lparr>connect_tasks := a12\<rparr>) = follows_inv st0 s"
  "follows_inv st0 (s\<lparr>retry_tasks := a13\<rparr>) = follows_inv st0 s"
  by (simp_all add: follows_inv_def)

lemma inv_set_result: "set_result f s = Inr s' \<Longrightarrow> follows_inv st0 s' = follows_inv st0 s"
  by (auto simp: set_result_def split: if_splits)

lemma inv_set_exception: "set_exception f e s = Inr s' \<Longrightarrow> follows_inv st0 s' = follows_inv st0 s"
  by (auto simp: set_exception_def split: if_splits)

lemma inv_cancel [simp]: "follows_inv st0 (cancel f s) = follows_inv st0 s"
  by (simp add: cancel_def)

lemma inv_call_transport [simp]: "follows_inv st0 (call_transport c s) = follows_inv st0 s"
  by (simp add: call_transport_def)

lemma inv_try_connect [simp]: "follows_inv st0 (try_connect s) = follows_inv st0 s"
  by (simp add: try_connect_def)

lemma inv_create_retry_task [simp]: "follows_inv st0 (create_retry_task s) = follows_inv st0 s"
  by (simp add: create_retry_task_def)

lemma inv_fail_connected_future: "fail_connected_future e s = Inr s' \<Longrightarrow> follows_inv st0 s' = follows_inv st0 s"
  by (auto simp: fail_connected_future_def inv_set_exception split: option.splits sum.splits)

lemma inv_connect_joined: "follows_inv st0 s \<Longrightarrow> follows_inv st0 (fst (connect_joined f s))"
  by (simp add: connect_joined_def split: wake.splits)

lemma inv_connect: "follows_inv st0 s \<Longrightarrow> follows_inv st0 (fst (connect s))"
  by (auto simp: connect_def new_future_def inv_connect_joined split: option.splits prod.splits)

lemma inv_attempt_joined: "follows_inv st0 s \<Longrightarrow> follows_inv st0 (fst (attempt_joined f s))"
  by (simp add: attempt_joined_def split: wake.splits)

lemma inv_connect_impl_fail: "follows_inv st0 s \<Longrightarrow> follows_inv st0 (fst (connect_impl_fail e s))"
  by (auto simp: connect_impl_fail_def inv_set_exception split: option.splits sum.splits)

lemma inv_connect_impl_disposed: "follows_inv st0 s \<Longrightarrow> follows_inv st0 (fst (connect_impl_disposed e ext s))"
  by (auto simp: connect_impl_disposed_def inv_connect_impl_fail split: option.splits)

lemma inv_connect_impl_timeout: "follows_inv st0 s \<Longrightarrow> follows_inv st0 (fst (connect_impl_timeout s))"
  by (auto simp: connect_impl_timeout_def Let_def inv_connect_impl_fail inv_enact split: option.splits)

lemma inv_connect_impl_wait: "follows_inv st0 s \<Longrightarrow> follows_inv st0 (fst (connect_impl_wait f s))"
  by (auto simp: connect_impl_wait_def inv_connect_impl_timeout split: wake.splits)

lemma inv_connect_impl_woken: "follows_inv st0 s \<Longrightarrow> follows_inv st0 (fst (connect_impl_woken f s))"
  by (auto simp: connect_impl_woken_def inv_connect_impl_timeout split: wake.splits)

lemma inv_connect_impl_connected: "follows_inv st0 s \<Longrightarrow> follows_inv st0 (fst (connect_impl_connected ext s))"
  by (auto simp: connect_impl_connected_def inv_connect_impl_wait split: option.splits)

lemma inv_connect_impl: "follows_inv st0 s \<Longrightarrow> follows_inv st0 (fst (connect_impl s))"
  by (simp add: connect_impl_def Let_def)

lemma inv_connect_attempt: "follows_inv st0 s \<Longrightarrow> follows_inv st0 (fst (connect_attempt s))"
  by (auto simp: connect_attempt_def new_future_def inv_attempt_joined inv_connect_impl inv_enact split: option.splits)

lemma inv_on_connection_attempt_done: "follows_inv st0 s \<Longrightarrow> follows_inv st0 (fst (on_connection_attempt_done task s))"
  by (auto simp: on_connection_attempt_done_def Let_def inv_enact inv_fail_connected_future split: option.splits sum.splits task_outcome.splits)

lemma inv_retry: "follows_inv st0 s \<Longrightarrow> follows_inv st0 (fst (retry_connection_attempt s))"
  "follows_inv st0 s \<Longrightarrow> follows_inv st0 (fst (retry_slept s))"
  by (simp_all add: retry_connection_attempt_def retry_slept_def)

lemma inv_close_closed: "follows_inv st0 s \<Longrightarrow> follows_inv st0 (fst (close_closed s))"
  by (auto simp: close_closed_def Let_def inv_enact split: option.splits)

lemma inv_close_wait: "follows_inv st0 s \<Longrightarrow> follows_inv st0 (fst (close_wait f s))"
  by (auto simp: close_wait_def inv_close_closed split: wake.splits)

lemma inv_close_woken: "follows_inv st0 s \<Longrightarrow> follows_inv st0 (fst (close_woken f s))"
  by (auto simp: close_woken_def inv_close_closed split: wake.splits)

lemma inv_close_sent: "follows_inv st0 s \<Longrightarrow> follows_inv st0 (fst (close_sent ext s))"
  by (auto simp: close_sent_def inv_close_wait split: option.splits)

lemma inv_close_closing: "follows_inv st0 s \<Longrightarrow> follows_inv st0 (fst (close_closing s))"
  by (auto simp: close_closing_def Let_def new_future_def inv_close_closed inv_enact split: option.splits)

lemma inv_close_connected: "follows_inv st0 s \<Longrightarrow> follows_inv st0 (fst (close_connected f s))"
  by (auto simp: close_connected_def inv_close_closing split: wake.splits)

lemma inv_close_disposed: "follows_inv st0 s \<Longrightarrow> follows_inv st0 (fst (close_disposed ext s))"
  by (auto simp: close_disposed_def inv_enact split: option.splits)

lemma inv_close: "follows_inv st0 s \<Longrightarrow> follows_inv st0 (fst (close s))"
  by (auto simp: close_def inv_enact inv_close_connected inv_close_closing split: option.splits)

lemma inv_ping_joined: "follows_inv st0 s \<Longrightarrow> follows_inv st0 (fst (ping_joined f s))"
  by (auto simp: ping_joined_def split: wake.splits)

lemma inv_ping_wait: "follows_inv st0 s \<Longrightarrow> follows_inv st0 (fst (ping_wait f s))"
  by (auto simp: ping_wait_def split: wake.splits)

lemma inv_ping_woken: "follows_inv st0 s \<Longrightarrow> follows_inv st0 (fst (ping_woken f s))"
  by (auto simp: ping_woken_def split: wake.splits)

lemma inv_ping_sent: "follows_inv st0 s \<Longrightarrow> follows_inv st0 (fst (ping_sent ext s))"
  by (auto simp: ping_sent_def inv_ping_wait split: option.splits)

lemma inv_send: "follows_inv st0 s \<Longrightarrow> follows_inv st0 (fst (send_protocol_message m k s))"
  by (auto simp: send_protocol_message_def split: option.splits)

lemma inv_ping: "follows_inv st0 s \<Longrightarrow> follows_inv st0 (fst (ping i s))"
  by (auto simp: ping_def new_future_def Let_def inv_send inv_ping_joined split: option.splits)

lemma inv_closed_resolve: "follows_inv st0 s \<Longrightarrow> follows_inv st0 (fst (closed_resolve s))"
  by (auto simp: closed_resolve_def inv_set_result split: option.splits sum.splits)

lemma inv_closed_disposed: "follows_inv st0 s \<Longrightarrow> follows_inv st0 (fst (closed_disposed ext s))"
  by (auto simp: closed_disposed_def inv_closed_resolve split: option.splits)

lemma inv_error_disposed: "follows_inv st0 s \<Longrightarrow> follows_inv st0 (fst (error_disposed e ext s))"
  by (auto simp: error_disposed_def split: option.splits)

lemma inv_on_connected: "follows_inv st0 s \<Longrightarrow> follows_inv st0 (fst (on_connected s))"
  by (auto simp: on_connected_def Let_def inv_enact inv_set_result split: option.splits sum.splits)

lemma inv_on_error: "follows_inv st0 s \<Longrightarrow> follows_inv st0 (fst (on_error m s))"
  by (auto simp: on_error_def Let_def inv_enact inv_fail_connected_future split: option.splits sum.splits)

lemma inv_on_closed: "follows_inv st0 s \<Longrightarrow> follows_inv st0 (fst (on_closed s))"
  by (auto simp: on_closed_def inv_closed_resolve split: option.splits)

lemma inv_on_heartbeat: "follows_inv st0 s \<Longrightarrow> follows_inv st0 (fst (on_heartbeat m s))"
  by (auto simp: on_heartbeat_def inv_set_result split: option.splits sum.splits)

lemma inv_on_protocol_message: "follows_inv st0 s \<Longrightarrow> follows_inv st0 (fst (on_protocol_message m s))"
  by (auto simp: on_protocol_message_def inv_on_connected inv_on_error inv_on_closed inv_on_heartbeat split: ProtocolMessageAction.splits)

lemma inv_resume: "follows_inv st0 s \<Longrightarrow> follows_inv st0 (fst (resume k ext s))"
  by (cases k) (simp_all add: inv_connect_joined inv_attempt_joined inv_connect_impl_connected
      inv_connect_impl_woken inv_connect_impl_disposed inv_retry inv_close_disposed inv_close_connected
      inv_close_sent inv_close_woken close_ws_connect_task_def inv_ping_joined inv_ping_sent inv_ping_woken
      inv_error_disposed inv_closed_disposed split: option.splits)

lemma inv_exec: "follows_inv st0 s \<Longrightarrow> follows_inv st0 (fst (exec ev s))"
  by (cases ev) (simp_all add: inv_connect inv_close inv_ping inv_on_protocol_message inv_connect_attempt
      inv_on_connection_attempt_done inv_retry inv_resume)

lemma inv_run: "follows_inv st0 s \<Longrightarrow> follows_inv st0 (run evs s)"
  by (induction evs arbitrary: s) (simp_all add: inv_exec)

lemma inv_init: "follows_inv st0 (ConnectionManager_init opts st0)"
  by (simp add: follows_inv_def ConnectionManager_init_def)

text \<open>
  Claim C8. Whatever the application, the transport and the timers do, and in whatever
  order, each \<^verbatim>\<open>ConnectionStateChange\<close> the manager has emitted has as
  \<open>previous\<close> the \<open>current\<close> of the event emitted just before it. Moreover the first
  event starts at the state the manager was constructed with, and the last ends at the
  state field.
\<close>

theorem state_changes_chained:
  "chained (emitted (run evs (ConnectionManager_init opts initial_state))) \<and>
   follows initial_state (emitted (run evs (ConnectionManager_init opts initial_state)))
     (state (run evs (ConnectionManager_init opts initial_state)))"
  using inv_run [OF inv_init, of initial_state evs opts]
  by (simp add: follows_inv_def follows_chained)

theorem state_changes_chained_witness:
  "emitted (run (closed_while_retry_sleeps @ retry_fires) fresh_manager) =
     [\<lparr>previous = INITIALIZED, current = CONNECTING, reason = None\<rparr>,
      \<lparr>previous = CONNECTING, current = DISCONNECTED, reason = Some connection_timeout\<rparr>,
      \<lparr>previous = DISCONNECTED, current = CLOSED, reason = None\<rparr>,
      \<lparr>previous = CLOSED, current = CONNECTING, reason = None\<rparr>] \<and>
   chained (emitted (run (closed_while_retry_sleeps @ retry_fires) fresh_manager))"
proof -
  have "emitted (run (closed_while_retry_sleeps @ retry_fires) fresh_manager) =
     [\<lparr>previous = INITIALIZED, current = CONNECTING, reason = None\<rparr>,
      \<lparr>previous = CONNECTING, current = DISCONNECTED, reason = Some connection_timeout\<rparr>,
      \<lparr>previous = DISCONNECTED, current = CLOSED, reason = None\<rparr>,
      \<lparr>previous = CLOSED, current = CONNECTING, reason = None\<rparr>]"
    by code_simp
  then show ?thesis
    using state_changes_chained
      [of "closed_while_retry_sleeps @ retry_fires" example_options INITIALIZED]
    by (simp add: fresh_manager_def Connection_init_def example_options_def)
qed

subsection \<open>A future that is done does not change\<close>

text \<open>
  \<^verbatim>\<open>set_result\<close>, \<^verbatim>\<open>set_exception\<close> and \<^verbatim>\<open>cancel\<close> change a pending future
  only, and a new future is a new entry of the store. No segment touches the store in
  another way.
\<close>

lemma settled_refl [simp]: "settled s s"
  by (simp add: settled_def)

lemma settled_trans: "settled s s1 \<Longrightarrow> settled s1 s2 \<Longrightarrow> settled s s2"
  by (auto simp: settled_def)

lemma fut_upd [simp]:
  "fut (s\<lparr>options := a1\<rparr>) = fut s"
  "fut (s\<lparr>connected_future := a2\<rparr>) = fut s"
  "fut (s\<lparr>closed_future := a3\<rparr>) = fut s"
  "fut (s\<lparr>ping_future := a4\<rparr>) = fut s"
  "fut (s\<lparr>ping_id := a5\<rparr>) = fut s"
  "fut (s\<lparr>timeout_in_secs := a6\<rparr>) = fut s"
  "fut (s\<lparr>transport := a7\<rparr>) = fut s"
  "fut (s\<lparr>state := a8\<rparr>) = fut s"
  "fut (s\<lparr>calls := a9\<rparr>) = fut s"
  "fut (s\<lparr>transports_created := a10\<rparr>) = fut s"
  "fut (s\<lparr>channel_messages := a11\<rparr>) = fut s"
  "fut (s\<lparr>connect_tasks := a12\<rparr>) = fut s"
  "fut (s\<lparr>retry_tasks := a13\<rparr>) = fut s"
  "fut (s\<lparr>emitted := a14\<rparr>) = fut s"
  by (simp_all add: fut_def fun_eq_iff)

lemma settled_upd [simp]:
  "settled s0 (s\<lparr>options := a1\<rparr>) = settled s0 s"
  "settled s0 (s\<lparr>connected_future := a2\<rparr>) = settled s0 s"
  "settled s0 (s\<lparr>closed_future := a3\<rparr>) = settled s0 s"
  "settled s0 (s\<lparr>ping_future := a4\<rparr>) = settled s0 s"
  "settled s0 (s\<lparr>ping_id := a5\<rparr>) = settled s0 s"
  "settled s0 (s\<lparr>timeout_in_secs := a6\<rparr>) = settled s0 s"
  "settled s0 (s\<lparr>transport := a7\<rparr>) = settled s0 s"
  "settled s0 (s\<lparr>state := a8\<rparr>) = settled s0 s"
  "settled s0 (s\<lparr>calls := a9\<rparr>) = settled s0 s"
  "settled s0 (s\<lparr>transports_created := a10\<rparr>) = settled s0 s"
  "settled s0 (s\<lparr>channel_messages := a11\<rparr>) = settled s0 s"
  "settled s0 (s\<lparr>connect_tasks := a12\<rparr>) = settled s0 s"
  "settled s0 (s\<lparr>retry_tasks := a13\<rparr>) = settled s0 s"
  "settled s0 (s\<lparr>emitted := a14\<rparr>) = settled s0 s"
  by (simp_all add: settled_def)

lemma settled_enact [simp]: "settled s0 (enact_state_change st r s) = settled s0 s"
  by (simp add: enact_state_change_def Let_def)

lemma settled_call_transport [simp]: "settled s0 (call_transport c s) = settled s0 s"
  by (simp add: call_transport_def)

lemma settled_try_connect [simp]: "settled s0 (try_connect s) = settled s0 s"
  by (simp add: try_connect_def)

lemma settled_create_retry_task [simp]: "settled s0 (create_retry_task s) = settled s0 s"
  by (simp add: create_retry_task_def)


















































subsection \<open>Joining an outstanding operation\<close>




lemma ping_joins:
  assumes "ping_future s = Some f" and "fut s f = Pending"
  shows "ping j s = (s, Suspend (Await_future f) (K_ping_joined f))"
  using assms by (simp add: ping_def ping_joined_def)

lemma ping_joins_run:
  assumes "ping_future s = Some f" and "fut s f = Pending"
  shows "run (map Call_ping ids) s = s \<and>
         results (map Call_ping ids) s =
           replicate (length ids) (Suspend (Await_future f) (K_ping_joined f))"
  using assms by (induction ids) (simp_all add: ping_joins)

lemma attempt_done_failed:
  assumes "state s = FAILED"
  shows "run (map Attempt_done tasks) s = s"
  using assms
  by (induction tasks)
    (simp_all add: on_connection_attempt_done_def Let_def split: task_outcome.splits)

subsection \<open>Closing a connected connection\<close>




subsection \<open>A retry that fires after the connection was closed\<close>

text \<open>
  From \<open>closed\<close> and from \<open>failed\<close> alike, the end of the retry's sleep creates an
  attempt task, and the attempt moves to \<open>connecting\<close> and connects a new transport.
\<close>

lemma retry_from_terminal_state:
  assumes "state s = CLOSED \<or> state s = FAILED"
  shows "connect_tasks (fst (retry_slept s)) = connect_tasks s + 1 \<and>
         state (fst (connect_attempt (fst (retry_slept s)))) = CONNECTING \<and>
         calls (fst (connect_attempt (fst (retry_slept s)))) =
           calls s @ [T_connect (transports_created s)]"
  using assms
  by (auto simp: retry_slept_def try_connect_def connect_attempt_def connect_impl_def
      new_transport_def transport_connect_def Let_def enact_state_change_def
      call_transport_def)

text \<open>
  Claim C2, on a run the code can make. An attempt times out, its completion handler
  schedules the retry, and while the retry sleeps the application closes the
  connection: the state is \<open>closed\<close>. Then the sleep ends. \<^verbatim>\<open>try_connect\<close> creates
  a second attempt task without looking at the state, and \<^verbatim>\<open>_connect\<close> tests the
  state for \<open>connected\<close> and \<open>connecting\<close> only: it moves from \<open>closed\<close> to
  \<open>connecting\<close> and connects a new transport.
\<close>

theorem fired_retry_reconnects_after_close:
  "state (run closed_while_retry_sleeps fresh_manager) = CLOSED \<and>
   connect_tasks (run closed_while_retry_sleeps fresh_manager) = 1 \<and>
   retry_tasks (run closed_while_retry_sleeps fresh_manager) = 1 \<and>
   calls (run closed_while_retry_sleeps fresh_manager) =
     [T_connect 0, T_dispose 0, T_dispose 0] \<and>
   connect_tasks (run (closed_while_retry_sleeps @ [Wake K_retry_sleep None]) fresh_manager) = 2 \<and>
   state (run (closed_while_retry_sleeps @ retry_fires) fresh_manager) = CONNECTING \<and>
   last (emitted (run (closed_while_retry_sleeps @ retry_fires) fresh_manager)) =
     \<lparr>previous = CLOSED, current = CONNECTING, reason = None\<rparr> \<and>
   calls (run (closed_while_retry_sleeps @ retry_fires) fresh_manager) =
     [T_connect 0, T_dispose 0, T_dispose 0, T_connect 1]"
  by code_simp

subsection \<open>A fatal error frame\<close>

text \<open>
  What the handler does when the connect future is pending and there is a transport.
  On an \<open>error\<close> frame whose \<open>nonfatal\<close> is false it moves to \<open>failed\<close> with the
  \<^verbatim>\<open>AblyAuthException\<close> built from the frame's message, status code and code,
  fails the connect future with it and clears the field, disposes the transport and
  raises the exception. The caller of \<^verbatim>\<open>connect()\<close> and the attempt waiting for the
  future are woken with the same exception, and the completion handler of an attempt
  does nothing while the state is \<open>failed\<close>.
\<close>

lemma fatal_error_with_pending_future:
  assumes "state s = CONNECTING" and "connected_future s = Some f"
    and "f < length (futures s)" and "fut s f = Pending" and "transport s = Some t"
    and "action msg = Action_ERROR" and "error msg = Some err" and "\<not> nonfatal err"
  shows "let exception = AblyAuthException (message err) (statusCode err) (code err);
             s1 = fst (on_protocol_message msg s)
         in snd (on_protocol_message msg s) =
              Suspend Transport_call (K_error_disposed exception) \<and>
            through None (on_protocol_message msg s) = (s1, Raise exception) \<and>
            state s1 = FAILED \<and>
            emitted s1 =
              emitted s @
              [\<lparr>previous = CONNECTING, current = FAILED, reason = Some exception\<rparr>] \<and>
            fut s1 f = Failed exception \<and>
            connected_future s1 = None \<and>
            calls s1 = calls s @ [T_dispose (tid t)] \<and>
            retry_tasks s1 = retry_tasks s \<and>
            connect_tasks s1 = connect_tasks s \<and>
            resume (K_connect f) None s1 = (s1, Raise exception) \<and>
            resume (K_connect_impl_wait f) None s1 = (s1, Raise exception) \<and>
            run (map Attempt_done tasks) s1 = s1"
proof -
  let ?e = "AblyAuthException (message err) (statusCode err) (code err)"
  let ?s1 = "(enact_state_change FAILED (Some ?e) s)
               \<lparr>futures := (futures s)[f := Failed ?e], connected_future := None,
                calls := calls s @ [T_dispose (tid t)]\<rparr>"
  have step: "on_protocol_message msg s = (?s1, Suspend Transport_call (K_error_disposed ?e))"
    using assms
    by (simp add: on_protocol_message_def on_error_def Let_def fail_connected_future_def
        set_exception_def enact_state_change_def call_transport_def fut_def)
  have failed: "state ?s1 = FAILED"
    by (simp add: enact_state_change_def Let_def)
  have f1: "fut ?s1 f = Failed ?e"
    using assms(3) by (simp add: fut_def enact_state_change_def Let_def)
  show ?thesis
    using step f1 attempt_done_failed [OF failed, of tasks] assms(1)
    by (simp add: Let_def through_def error_disposed_def connect_joined_def
        connect_impl_woken_def enact_state_change_def)
qed

text \<open>
  Claim C3, on two runs the code can make. First: the state is \<open>connecting\<close> with a
  pending connect future and a transport, and a retry scheduled by an earlier failed
  attempt is asleep. The fatal frame is handled as above and the state is \<open>failed\<close>.
  Then the sleep ends: \<^verbatim>\<open>try_connect\<close> creates an attempt, \<^verbatim>\<open>_connect\<close> moves
  from \<open>failed\<close> to \<open>connecting\<close> and connects a new transport, the attempt fails
  (\<^verbatim>\<open>asyncio.shield(None)\<close>), and its completion handler moves to
  \<open>disconnected\<close> and schedules one more retry: a retry is scheduled after the fatal
  frame. Second: the state is \<open>connecting\<close> in the retry after a timeout, so the
  field holds the connect future that the timeout failed. The handler moves to
  \<open>failed\<close>, then \<^verbatim>\<open>set_exception\<close> on the failed future raises
  \<^verbatim>\<open>InvalidStateError\<close>: the transport is not disposed and the exception of the
  frame is not raised.
\<close>

theorem fatal_error_then_retry:
  "state (run retry_sleeps_while_connecting fresh_manager) = CONNECTING \<and>
   connected_future (run retry_sleeps_while_connecting fresh_manager) = Some 1 \<and>
   fut (run retry_sleeps_while_connecting fresh_manager) 1 = Pending \<and>
   map_option tid (transport (run retry_sleeps_while_connecting fresh_manager)) = Some 1 \<and>
   retry_tasks (run retry_sleeps_while_connecting fresh_manager) = 1 \<and>
   results fatal_error_handled (run retry_sleeps_while_connecting fresh_manager) =
     [Suspend Transport_call (K_error_disposed invalid_key),
      Raise invalid_key, Raise invalid_key, Raise invalid_key, Return] \<and>
   state (run (retry_sleeps_while_connecting @ fatal_error_handled) fresh_manager) = FAILED \<and>
   retry_tasks (run (retry_sleeps_while_connecting @ fatal_error_handled) fresh_manager) = 1 \<and>
   state (run (retry_sleeps_while_connecting @ fatal_error_handled @ retry_fires)
            fresh_manager) = CONNECTING \<and>
   last (emitted (run (retry_sleeps_while_connecting @ fatal_error_handled @ retry_fires)
                    fresh_manager)) =
     \<lparr>previous = FAILED, current = CONNECTING, reason = None\<rparr> \<and>
   retry_tasks (run (retry_sleeps_while_connecting @ fatal_error_handled @ retry_fires @
                       retry_attempt_fails) fresh_manager) = 2 \<and>
   state (run (timed_out_events @ retry_fires) fresh_manager) = CONNECTING \<and>
   connected_future (run (timed_out_events @ retry_fires) fresh_manager) = Some 0 \<and>
   fut (run (timed_out_events @ retry_fires) fresh_manager) 0 = Failed connection_timeout \<and>
   snd (through None (on_protocol_message fatal_error_frame
          (run (timed_out_events @ retry_fires) fresh_manager))) = Raise InvalidStateError \<and>
   state (fst (through None (on_protocol_message fatal_error_frame
          (run (timed_out_events @ retry_fires) fresh_manager)))) = FAILED \<and>
   calls (fst (through None (on_protocol_message fatal_error_frame
          (run (timed_out_events @ retry_fires) fresh_manager)))) =
     [T_connect 0, T_dispose 0, T_connect 1]"
  by code_simp

subsection \<open>An attempt that times out\<close>

text \<open>
  What an attempt does that starts while the connect future is pending and the state
  is neither \<open>connected\<close> nor \<open>connecting\<close>. It moves to \<open>connecting\<close>, connects
  a new transport and waits for the connect future for at most the request timeout.
  When that wait times out, the manager moves to \<open>disconnected\<close> with the timeout
  error, disposes the transport, fails the connect future with the same error and the
  attempt raises it, so the caller of \<^verbatim>\<open>connect()\<close> is woken with it. The
  completion handler then creates the retry task, which sleeps for the retry timeout
  and calls \<^verbatim>\<open>try_connect\<close>; the attempt this creates moves to \<open>connecting\<close> and
  connects the next transport.
\<close>

lemma attempt_with_pending_future_times_out:
  assumes "state s \<noteq> CONNECTED" and "state s \<noteq> CONNECTING"
    and "connected_future s = Some f" and "f < length (futures s)" and "fut s f = Pending"
  shows "let n = transports_created s;
             waiting = through None (connect_attempt s);
             timed_out = through None (woken waiting);
             s2 = fst timed_out;
             done = Attempt_done (Task_raised connection_timeout);
             retrying = [done, Start_retry, Wake K_retry_sleep None, Start_attempt]
         in snd waiting =
              Suspend (Wait_for_shield f (timeout_in_secs s)) (K_connect_impl_wait f) \<and>
            fut (fst waiting) f = Pending \<and>
            snd timed_out = Raise connection_timeout \<and>
            state s2 = DISCONNECTED \<and>
            emitted s2 =
              emitted s @
              [\<lparr>previous = state s, current = CONNECTING, reason = None\<rparr>,
               \<lparr>previous = CONNECTING, current = DISCONNECTED,
                reason = Some connection_timeout\<rparr>] \<and>
            calls s2 = calls s @ [T_connect n, T_dispose n] \<and>
            fut s2 f = Failed connection_timeout \<and>
            resume (K_connect f) None s2 = (s2, Raise connection_timeout) \<and>
            results retrying s2 =
              [Return,
               Suspend (Sleep (of_int (disconnected_retry_timeout (options s)) / 1000))
                 K_retry_sleep,
               Return,
               Suspend Transport_call K_connect_impl_connected] \<and>
            retry_tasks (run [done] s2) = retry_tasks s + 1 \<and>
            state (run [done] s2) = DISCONNECTED \<and>
            connect_tasks (run [done, Start_retry, Wake K_retry_sleep None] s2) =
              connect_tasks s + 1 \<and>
            state (run retrying s2) = CONNECTING \<and>
            calls (run retrying s2) = calls s2 @ [T_connect (n + 1)]"
proof -
  let ?n = "transports_created s"
  let ?t = "\<lparr>tid = ?n, is_connected = False, ws_connect_task = Some ()\<rparr>"
  let ?s1 = "s\<lparr>state := CONNECTING,
               emitted := emitted s @
                 [\<lparr>previous = state s, current = CONNECTING, reason = None\<rparr>],
               transport := Some ?t, transports_created := ?n + 1,
               calls := calls s @ [T_connect ?n]\<rparr>"
  let ?s2 = "?s1\<lparr>state := DISCONNECTED,
               emitted := emitted ?s1 @
                 [\<lparr>previous = CONNECTING, current = DISCONNECTED,
                   reason = Some connection_timeout\<rparr>],
               calls := calls ?s1 @ [T_dispose ?n],
               futures := (futures s)[f := Failed connection_timeout]\<rparr>"
  have f1: "fut ?s1 f = Pending"
    using assms by (simp add: fut_def)
  have waiting: "through None (connect_attempt s) =
      (?s1, Suspend (Wait_for_shield f (timeout_in_secs s)) (K_connect_impl_wait f))"
    using assms f1
    by (simp add: connect_attempt_def connect_impl_def new_transport_def transport_connect_def
        Let_def enact_state_change_def call_transport_def through_def
        connect_impl_connected_def connect_impl_wait_def)
  have timed_out:
    "through None
       (woken (?s1, Suspend (Wait_for_shield f (timeout_in_secs s)) (K_connect_impl_wait f))) =
     (?s2, Raise connection_timeout)"
    using assms f1
    by (simp add: woken_def through_def connect_impl_woken_def connect_impl_timeout_def Let_def
        enact_state_change_def call_transport_def connect_impl_disposed_def
        connect_impl_fail_def set_exception_def)
  have f2: "fut ?s2 f = Failed connection_timeout"
    using assms by (simp add: fut_def)
  show ?thesis
    unfolding Let_def waiting timed_out fst_conv snd_conv
    using assms f1 f2
    by (simp add: connect_joined_def on_connection_attempt_done_def Let_def
        create_retry_task_def retry_connection_attempt_def retry_slept_def try_connect_def
        connect_attempt_def connect_impl_def new_transport_def transport_connect_def
        enact_state_change_def call_transport_def)
qed

text \<open>
  Claim C4, on a run the code can make: the retry attempt that the claim itself ends
  in. The first attempt times out as above; its handler fails the connect future and
  leaves it in the field (the completion handler and the handler of the fatal frame
  clear the field after \<^verbatim>\<open>set_exception\<close>, the handler of the timeout does not).
  The retry attempt moves to \<open>connecting\<close> and connects the second transport. No
  \<open>connected\<close> frame arrives. The attempt does not wait: \<^verbatim>\<open>wait_for\<close> finds the
  future failed and raises its old exception at once. There is no transition to
  \<open>disconnected\<close> and the second transport is not disposed. The completion handler
  calls \<^verbatim>\<open>set_exception\<close> on the failed future, which raises
  \<^verbatim>\<open>InvalidStateError\<close>, and so creates no retry task: the state stays
  \<open>connecting\<close>.
\<close>

theorem retry_attempt_does_not_time_out:
  "state (run timed_out_events fresh_manager) = DISCONNECTED \<and>
   connected_future (run timed_out_events fresh_manager) = Some 0 \<and>
   fut (run timed_out_events fresh_manager) 0 = Failed connection_timeout \<and>
   retry_tasks (run timed_out_events fresh_manager) = 1 \<and>
   results retry_fires (run timed_out_events fresh_manager) =
     [Return, Suspend Transport_call K_connect_impl_connected] \<and>
   state (run (timed_out_events @ retry_fires) fresh_manager) = CONNECTING \<and>
   results stale_attempt_fails (run (timed_out_events @ retry_fires) fresh_manager) =
     [Raise connection_timeout, Raise InvalidStateError] \<and>
   state (run (timed_out_events @ retry_fires @ stale_attempt_fails) fresh_manager) =
     CONNECTING \<and>
   emitted (run (timed_out_events @ retry_fires @ stale_attempt_fails) fresh_manager) =
     [\<lparr>previous = INITIALIZED, current = CONNECTING, reason = None\<rparr>,
      \<lparr>previous = CONNECTING, current = DISCONNECTED, reason = Some connection_timeout\<rparr>,
      \<lparr>previous = DISCONNECTED, current = CONNECTING, reason = None\<rparr>] \<and>
   calls (run (timed_out_events @ retry_fires @ stale_attempt_fails) fresh_manager) =
     [T_connect 0, T_dispose 0, T_connect 1] \<and>
   retry_tasks (run (timed_out_events @ retry_fires @ stale_attempt_fails) fresh_manager) = 1"
  by code_simp

subsection \<open>Concurrent calls of connect\<close>



subsection \<open>Resolving an operation a second time\<close>

text \<open>
  Claim C6, on two runs the code can make. First: \<^verbatim>\<open>close()\<close> times out, which
  cancels the close future and leaves it in the field, and then the \<open>closed\<close> frame
  arrives late: \<^verbatim>\<open>set_result\<close> on the cancelled future raises
  \<^verbatim>\<open>InvalidStateError\<close> (the handler of \<open>closed\<close> has no test for a cancelled
  future, which the handlers of \<open>connected\<close> and \<open>heartbeat\<close> have). Second: an
  attempt times out, which fails the connect future and leaves it in the field, the
  retry connects a new transport, and its \<open>connected\<close> frame arrives: the future is
  failed, not cancelled, so the test lets \<^verbatim>\<open>set_result\<close> run and it raises.
\<close>

theorem second_resolution_raises:
  "snd (woken (through None (close connected_manager))) = Raise close_timeout \<and>
   closed_future (fst (woken (through None (close connected_manager)))) = Some 1 \<and>
   fut (fst (woken (through None (close connected_manager)))) 1 = Cancelled \<and>
   snd (through None (on_protocol_message closed_frame
          (fst (woken (through None (close connected_manager)))))) = Raise InvalidStateError \<and>
   connected_future (run (timed_out_events @ retry_fires) fresh_manager) = Some 0 \<and>
   fut (run (timed_out_events @ retry_fires) fresh_manager) 0 = Failed connection_timeout \<and>
   snd (on_protocol_message connected_frame
          (run (timed_out_events @ retry_fires) fresh_manager)) = Raise InvalidStateError"
  by code_simp

subsection \<open>Ping in a state that does not allow it\<close>

text \<open>
  Claim C7. No ping future is outstanding and the state is neither \<open>connected\<close> nor
  \<open>connecting\<close>. Then \<^verbatim>\<open>ping()\<close> raises the invalid-state exception in its first
  segment, before any \<^verbatim>\<open>await\<close>. The manager afterwards differs only in the new
  ping future: nothing was sent on a transport, the state is the same and no event was
  emitted.
\<close>

theorem ping_in_invalid_state:
  assumes "ping_future s = None" and "state s \<noteq> CONNECTED" and "state s \<noteq> CONNECTING"
  shows "ping random_id s =
           (s\<lparr>ping_future := Some (length (futures s)), futures := futures s @ [Pending]\<rparr>,
            Raise (AblyException ''Cannot send ping request. Calling ping in invalid state''
                     40000 400)) \<and>
         calls (fst (ping random_id s)) = calls s \<and>
         state (fst (ping random_id s)) = state s \<and>
         emitted (fst (ping random_id s)) = emitted s"
  using assms by (simp add: ping_def new_future_def ping_invalid_state_def)

theorem ping_in_invalid_state_witness:
  "ping_future fresh_manager = None \<and>
   state fresh_manager \<noteq> CONNECTED \<and>
   state fresh_manager \<noteq> CONNECTING \<and>
   snd (ping ''id1'' fresh_manager) =
     Raise (AblyException ''Cannot send ping request. Calling ping in invalid state''
              40000 400) \<and>
   calls (fst (ping ''id1'' fresh_manager)) = calls fresh_manager \<and>
   state (fst (ping ''id1'' fresh_manager)) = state fresh_manager \<and>
   emitted (fst (ping ''id1'' fresh_manager)) = emitted fresh_manager"
proof -
  have h1: "ping_future fresh_manager = None"
    by code_simp
  have h2: "state fresh_manager \<noteq> CONNECTED"
    by code_simp
  have h3: "state fresh_manager \<noteq> CONNECTING"
    by code_simp
  show ?thesis
    using h1 h2 h3 ping_in_invalid_state [OF h1 h2 h3, of "''id1''"]
    by simp
qed

text \<open>
  Claim C9. After such a \<^verbatim>\<open>ping()\<close> has raised, the field holds the new future,
  which is pending. Every further \<^verbatim>\<open>ping()\<close>, however many follow, is suspended on
  that future and leaves the manager as it is; and it does so whatever the state has
  become in the meantime, \<open>connected\<close> included: the state is not looked at and the
  invalid-state exception is not raised again.
\<close>

theorem failed_ping_leaves_ping_future_set:
  assumes "ping_future s = None" and "state s \<noteq> CONNECTED" and "state s \<noteq> CONNECTING"
  shows "snd (ping random_id s) = Raise ping_invalid_state \<and>
         ping_future (fst (ping random_id s)) = Some (length (futures s)) \<and>
         fut (fst (ping random_id s)) (length (futures s)) = Pending \<and>
         results (map Call_ping ids) (fst (ping random_id s)) =
           replicate (length ids)
             (Suspend (Await_future (length (futures s)))
                (K_ping_joined (length (futures s)))) \<and>
         run (map Call_ping ids) (fst (ping random_id s)) = fst (ping random_id s) \<and>
         ping j ((fst (ping random_id s))\<lparr>state := st\<rparr>) =
           ((fst (ping random_id s))\<lparr>state := st\<rparr>,
            Suspend (Await_future (length (futures s))) (K_ping_joined (length (futures s))))"
proof -
  let ?f = "length (futures s)"
  let ?s1 = "fst (ping random_id s)"
  have s1: "?s1 = s\<lparr>ping_future := Some ?f, futures := futures s @ [Pending]\<rparr>"
    and r: "snd (ping random_id s) = Raise ping_invalid_state"
    using assms by (simp_all add: ping_def new_future_def)
  have pf: "ping_future ?s1 = Some ?f" and pending: "fut ?s1 ?f = Pending"
    by (simp_all add: s1 fut_def)
  have pf': "ping_future (?s1\<lparr>state := st\<rparr>) = Some ?f"
    and pending': "fut (?s1\<lparr>state := st\<rparr>) ?f = Pending"
    using pf pending by simp_all
  show ?thesis
    using r pf pending ping_joins_run [OF pf pending, of ids]
      ping_joins [OF pf' pending', of j]
    by simp
qed

theorem failed_ping_leaves_ping_future_set_witness:
  "ping_future fresh_manager = None \<and>
   state fresh_manager \<noteq> CONNECTED \<and>
   state fresh_manager \<noteq> CONNECTING \<and>
   ping_future (fst (ping ''id1'' fresh_manager)) = Some (length (futures fresh_manager)) \<and>
   results (map Call_ping [''id2'', ''id3'']) (fst (ping ''id1'' fresh_manager)) =
     replicate (length [''id2'', ''id3''])
       (Suspend (Await_future (length (futures fresh_manager)))
          (K_ping_joined (length (futures fresh_manager)))) \<and>
   snd (ping ''id4'' ((fst (ping ''id1'' fresh_manager))\<lparr>state := CONNECTED\<rparr>)) =
     Suspend (Await_future (length (futures fresh_manager)))
       (K_ping_joined (length (futures fresh_manager)))"
proof -
  have h1: "ping_future fresh_manager = None"
    by code_simp
  have h2: "state fresh_manager \<noteq> CONNECTED"
    by code_simp
  have h3: "state fresh_manager \<noteq> CONNECTING"
    by code_simp
  show ?thesis
    using h1 h2 h3
      failed_ping_leaves_ping_future_set [OF h1 h2 h3,
        of "''id1''" "[''id2'', ''id3'']" "''id4''" CONNECTED]
    by simp
qed

subsection \<open>A closed frame nobody asked for\<close>

text \<open>
  Claim C10. When a \<open>closed\<close> frame is handled while the field of the close future is
  \<^verbatim>\<open>None\<close>, the handler disposes the transport if there is one and then raises:
  \<^verbatim>\<open>None\<close> has no \<^verbatim>\<open>set_result\<close>, which is an \<^verbatim>\<open>AttributeError\<close>. The state
  is unchanged and no event is emitted.
\<close>

theorem closed_frame_without_close_raises:
  assumes "action msg = Action_CLOSED" and "closed_future s = None"
  shows "snd (through None (on_protocol_message msg s)) = Raise AttributeError \<and>
         state (fst (through None (on_protocol_message msg s))) = state s \<and>
         emitted (fst (through None (on_protocol_message msg s))) = emitted s \<and>
         closed_future (fst (through None (on_protocol_message msg s))) = None"
  using assms
  by (simp add: on_protocol_message_def on_closed_def closed_resolve_def closed_disposed_def
      through_def call_transport_def split: option.splits)

theorem closed_frame_without_close_raises_witness:
  "action closed_frame = Action_CLOSED \<and>
   closed_future connected_manager = None \<and>
   snd (through None (on_protocol_message closed_frame connected_manager)) =
     Raise AttributeError \<and>
   state (fst (through None (on_protocol_message closed_frame connected_manager))) =
     state connected_manager"
proof -
  have h1: "action closed_frame = Action_CLOSED"
    by (simp add: closed_frame_def)
  have h2: "closed_future connected_manager = None"
    by code_simp
  show ?thesis
    using h1 h2 closed_frame_without_close_raises [OF h1 h2] by blast
qed

end
